theory Spec2Isabelle
  imports Complex_Main "HOL-Library.Sublist" "HOL-Library.AList"
begin

section \<open>Python values\<close>

text \<open>
  The orchestrator and its agents exchange Python dictionaries with string keys
  (\<^verbatim>\<open>Dict[str, Any]\<close>). A dictionary is an association list in insertion order, which
  is the order Python iterates it in; \<^const>\<open>AList.update\<close> overwrites an existing key
  in place and appends a new key at the end, as \<^verbatim>\<open>d[k] = v\<close> does, and
  \<^const>\<open>map_of\<close> is the lookup.

  A \<^typ>\<open>string\<close> is a list of 8-bit characters: the texts covered are those whose
  code points lie below 256, one character per code point.
\<close>

datatype pyval =
    PNone
  | PBool bool
  | PInt int
  | PFloat real
  | PStr string
  | PList "pyval list"
  | PDict "(string \<times> pyval) list"

type_synonym pydict = "(string \<times> pyval) list"

text \<open>
  An exception caught by \<^verbatim>\<open>except Exception as e\<close>; the only thing the code reads
  from it is \<^verbatim>\<open>str(e)\<close>.
\<close>

datatype exn = Exception (str_of: string)

section \<open>Strings: \<^verbatim>\<open>str.lower\<close> and \<^verbatim>\<open>in\<close>\<close>

text \<open>
  \<^verbatim>\<open>str.lower()\<close> on code points below 256: the letters A..Z and the upper-case
  letters of the Latin-1 block (192..222 without the multiplication sign 215) move up
  by 32, every other character stays.
\<close>

definition lower_char :: "char \<Rightarrow> char" where
  "lower_char c =
     (let n = (of_char c :: nat)
      in if (65 \<le> n \<and> n \<le> 90) \<or> (192 \<le> n \<and> n \<le> 222 \<and> n \<noteq> 215)
         then char_of (n + 32) else c)"

definition lower :: "string \<Rightarrow> string" where
  "lower s = map lower_char s"

text \<open>\<^verbatim>\<open>kw in text\<close> on strings: \<open>kw\<close> occurs in \<open>text\<close> as a contiguous block.\<close>

fun substring_in :: "string \<Rightarrow> string \<Rightarrow> bool" where
  "substring_in kw [] = (kw = [])"
| "substring_in kw (c # cs) = (prefix kw (c # cs) \<or> substring_in kw cs)"

text \<open>\<^verbatim>\<open>any(kw in text for kw in kws)\<close>\<close>

definition any_in :: "string list \<Rightarrow> string \<Rightarrow> bool" where
  "any_in kws text = list_ex (\<lambda>kw. substring_in kw text) kws"

section \<open>The router: \<^verbatim>\<open>_determine_agents_needed\<close> and \<^verbatim>\<open>_is_coding_request\<close>\<close>

definition research_keywords :: "string list" where
  "research_keywords =
     [''research'', ''find'', ''search'', ''information'', ''analyze'', ''study'']"

definition doc_keywords :: "string list" where
  "doc_keywords = [''document'', ''write'', ''report'', ''summary'', ''documentation'']"

definition code_keywords :: "string list" where
  "code_keywords =
     [''code'', ''program'', ''script'', ''function'', ''class'', ''algorithm'', ''debug'']"

definition determine_agents_needed :: "string \<Rightarrow> string list" where
  "determine_agents_needed request =
     (let request_lower = lower request;
          needed_agents = [];
          needed_agents =
            (if any_in research_keywords request_lower
             then needed_agents @ [''research''] else needed_agents);
          needed_agents =
            (if any_in doc_keywords request_lower
             then needed_agents @ [''documentation''] else needed_agents);
          needed_agents =
            (if any_in code_keywords request_lower
             then needed_agents @ [''coding''] else needed_agents);
          needed_agents =
            (if needed_agents = [] then needed_agents @ [''research''] else needed_agents)
      in needed_agents)"

definition coding_indicators :: "string list" where
  "coding_indicators =
     [''write code'', ''create function'', ''build script'', ''program'',
      ''algorithm'', ''class'', ''method'', ''debug'', ''fix code'']"

definition is_coding_request :: "string \<Rightarrow> bool" where
  "is_coding_request request = any_in coding_indicators (lower request)"

text \<open>The fixed priority order of the three capabilities.\<close>

definition priority_order :: "string list" where
  "priority_order = [''research'', ''documentation'', ''coding'']"

section \<open>The orchestrator: \<^verbatim>\<open>AgentOrchestrator.process_user_request\<close>\<close>

text \<open>
  The three agents are external collaborators. \<^verbatim>\<open>self.agents\<close> is the dictionary
  \<^verbatim>\<open>{}\<close> until \<^verbatim>\<open>initialize_agents\<close> fills it, so each of its three entries may be
  missing; an entry that is there is the agent's method, which returns a dictionary or
  raises. Every call of an agent's method is recorded in a call log, the observable
  effect of a run on the agents.
\<close>

record registry =
  research_agent :: "(string \<Rightarrow> exn + pydict) option"
  documentation_agent :: "(pydict \<Rightarrow> exn + pydict) option"
  coding_agent :: "(string \<Rightarrow> exn + pydict) option"

datatype call =
    ConductResearch string
  | CreateDocumentation pydict
  | GenerateCode string

type_synonym results = "(string \<times> pydict) list"

record conversation_entry =
  entry_id :: nat
  entry_request :: string
  entry_selected_agents :: "string list"
  entry_results :: results
  entry_timestamp :: real

record orchestrator =
  agents :: registry
  conversation_history :: "conversation_entry list"
  active_agents :: "string list"

text \<open>The dictionary \<^verbatim>\<open>process_user_request\<close> returns, by its \<^verbatim>\<open>"status"\<close>.\<close>

datatype response =
    Completed (conversation_id: nat) (response_request: string) (response_results: results)
  | Failed (response_request: string) (response_error: string)

text \<open>\<^verbatim>\<open>__init__\<close>\<close>

definition new_orchestrator :: orchestrator where
  "new_orchestrator =
     \<lparr>agents = \<lparr>research_agent = None, documentation_agent = None, coding_agent = None\<rparr>,
      conversation_history = [],
      active_agents = []\<rparr>"

text \<open>\<^verbatim>\<open>str(KeyError(k))\<close> is the key's \<^verbatim>\<open>repr\<close>; the three keys looked up need no escape.\<close>

definition key_error :: "string \<Rightarrow> exn" where
  "key_error k = Exception ([CHR 0x27] @ k @ [CHR 0x27])"

text \<open>
  \<^verbatim>\<open>self.agents["research"].conduct_research(request)\<close> and its two siblings: the outcome,
  and the calls made on the agent.
\<close>

definition invoke_research :: "registry \<Rightarrow> string \<Rightarrow> (exn + pydict) \<times> call list" where
  "invoke_research ags request =
     (case research_agent ags of
        None \<Rightarrow> (Inl (key_error ''research''), [])
      | Some conduct_research \<Rightarrow> (conduct_research request, [ConductResearch request]))"

definition invoke_documentation :: "registry \<Rightarrow> pydict \<Rightarrow> (exn + pydict) \<times> call list" where
  "invoke_documentation ags research_data =
     (case documentation_agent ags of
        None \<Rightarrow> (Inl (key_error ''documentation''), [])
      | Some create_documentation \<Rightarrow>
          (create_documentation research_data, [CreateDocumentation research_data]))"

definition invoke_coding :: "registry \<Rightarrow> string \<Rightarrow> (exn + pydict) \<times> call list" where
  "invoke_coding ags request =
     (case coding_agent ags of
        None \<Rightarrow> (Inl (key_error ''coding''), [])
      | Some generate_code \<Rightarrow> (generate_code request, [GenerateCode request]))"

text \<open>\<^verbatim>\<open>{"error": str(e), "status": "failed"}\<close>\<close>

definition failure :: "exn \<Rightarrow> pydict" where
  "failure e = [(''error'', PStr (str_of e)), (''status'', PStr ''failed'')]"

text \<open>
  The body of one \<^verbatim>\<open>try\<close>/\<^verbatim>\<open>except Exception\<close> block: the agent's result is stored
  under the key, or the failure record is.
\<close>

definition try_store :: "string \<Rightarrow> exn + pydict \<Rightarrow> results \<Rightarrow> results" where
  "try_store key outcome results =
     (case outcome of
        Inr result \<Rightarrow> AList.update key result results
      | Inl e \<Rightarrow> AList.update key (failure e) results)"

definition research_stage ::
  "registry \<Rightarrow> string \<Rightarrow> string list \<Rightarrow> results \<times> call list \<Rightarrow> results \<times> call list" where
  "research_stage ags request selected_agents = (\<lambda>(results, calls).
     if ''research'' \<in> set selected_agents
     then (let (outcome, cs) = invoke_research ags request
           in (try_store ''research'' outcome results, calls @ cs))
     else (results, calls))"

definition documentation_stage ::
  "registry \<Rightarrow> string \<Rightarrow> string list \<Rightarrow> results \<times> call list \<Rightarrow> results \<times> call list" where
  "documentation_stage ags request selected_agents = (\<lambda>(results, calls).
     if ''documentation'' \<in> set selected_agents
     then (let research_data =
                 (case map_of results ''research'' of
                    Some research_result \<Rightarrow> research_result
                  | None \<Rightarrow> [(''research_report'', PStr request)]);
               (outcome, cs) = invoke_documentation ags research_data
           in (try_store ''documentation'' outcome results, calls @ cs))
     else (results, calls))"

definition coding_stage ::
  "registry \<Rightarrow> string \<Rightarrow> string list \<Rightarrow> results \<times> call list \<Rightarrow> results \<times> call list" where
  "coding_stage ags request selected_agents = (\<lambda>(results, calls).
     if ''coding'' \<in> set selected_agents
     then (if is_coding_request request
           then (let (outcome, cs) = invoke_coding ags request
                 in (try_store ''coding'' outcome results, calls @ cs))
           else (results, calls))
     else (results, calls))"

text \<open>
  \<^verbatim>\<open>if not selected_agents: selected_agents = self._determine_agents_needed(request)\<close>:
  \<^verbatim>\<open>None\<close> and the empty list are both false.
\<close>

definition effective_agents :: "string \<Rightarrow> string list option \<Rightarrow> string list" where
  "effective_agents request selected_agents =
     (case selected_agents of
        None \<Rightarrow> determine_agents_needed request
      | Some [] \<Rightarrow> determine_agents_needed request
      | Some (a # as) \<Rightarrow> a # as)"

text \<open>
  \<^verbatim>\<open>process_user_request\<close>. The clock is \<^verbatim>\<open>asyncio.get_event_loop().time()\<close>, the one
  call between the three guarded blocks and the \<^verbatim>\<open>append\<close>; were it to raise, the outer
  handler returns the failed response and nothing is appended. The result is the
  response, the orchestrator afterwards and the calls made on the agents.
\<close>

definition process_user_request ::
  "orchestrator \<Rightarrow> exn + real \<Rightarrow> string \<Rightarrow> string list option
     \<Rightarrow> response \<times> orchestrator \<times> call list" where
  "process_user_request self clock request selected_agents =
     (let selected_agents = effective_agents request selected_agents;
          (results, calls) = ([], []);
          conversation_id = length (conversation_history self);
          (results, calls) = research_stage (agents self) request selected_agents (results, calls);
          (results, calls) =
             documentation_stage (agents self) request selected_agents (results, calls);
          (results, calls) = coding_stage (agents self) request selected_agents (results, calls)
      in case clock of
           Inr timestamp \<Rightarrow>
             (let conversation_entry =
                    \<lparr>entry_id = conversation_id,
                     entry_request = request,
                     entry_selected_agents = selected_agents,
                     entry_results = results,
                     entry_timestamp = timestamp\<rparr>
              in (Completed conversation_id request results,
                  self\<lparr>conversation_history := conversation_history self @ [conversation_entry]\<rparr>,
                  calls))
         | Inl e \<Rightarrow> (Failed request (str_of e), self, calls))"

text \<open>
  \<^verbatim>\<open>get_conversation_history\<close>: the slice \<^verbatim>\<open>self.conversation_history[-limit:]\<close>. A
  negative start counts from the end and is clipped at 0, a start that is not negative
  is clipped at the length.
\<close>

definition get_conversation_history :: "orchestrator \<Rightarrow> int \<Rightarrow> conversation_entry list" where
  "get_conversation_history self limit =
     (let n = int (length (conversation_history self));
          start = - limit;
          start = (if start < 0 then max (start + n) 0 else min start n)
      in drop (nat start) (conversation_history self))"

section \<open>The model manager: \<^verbatim>\<open>SimpleModelManager.generate_response\<close>\<close>

text \<open>
  \<^verbatim>\<open>str.strip()\<close>: white space is removed at both ends. Below 256 the white-space
  characters are 9..13, 28..32, 133 and 160.
\<close>

definition is_space :: "char \<Rightarrow> bool" where
  "is_space c =
     (let n = (of_char c :: nat)
      in (9 \<le> n \<and> n \<le> 13) \<or> (28 \<le> n \<and> n \<le> 32) \<or> n = 133 \<or> n = 160)"

definition strip :: "string \<Rightarrow> string" where
  "strip s = rev (dropWhile is_space (rev (dropWhile is_space s)))"

text \<open>
  A loaded text-generation pipeline: called with the prompt and \<^verbatim>\<open>max_new_tokens\<close>, it
  raises or returns a list of dictionaries from strings to strings.
\<close>

type_synonym generation = "(string \<times> string) list"

type_synonym pipe = "string \<Rightarrow> pyval \<Rightarrow> exn + generation list"

record simple_model_manager =
  pipelines :: "string \<rightharpoonup> pipe"

text \<open>
  The \<^verbatim>\<open>try\<close> block of \<^verbatim>\<open>generate_response\<close>. \<^verbatim>\<open>result[0]\<close> on the empty list raises
  IndexError. Python's \<^verbatim>\<open>str\<close> of a dictionary is the parameter \<open>py_str\<close>.
\<close>

definition generate_body ::
  "(generation \<Rightarrow> string) \<Rightarrow> pipe \<Rightarrow> string \<Rightarrow> pydict \<Rightarrow> exn + string" where
  "generate_body py_str pipe prompt kwargs =
     (case pipe prompt (case map_of kwargs ''max_tokens'' of Some v \<Rightarrow> v | None \<Rightarrow> PInt 512) of
        Inl e \<Rightarrow> Inl e
      | Inr result \<Rightarrow>
          (case result of
             [] \<Rightarrow> Inl (Exception ''list index out of range'')
           | result0 # _ \<Rightarrow>
               (case map_of result0 ''generated_text'' of
                  Some generated_text \<Rightarrow> Inr (strip (drop (length prompt) generated_text))
                | None \<Rightarrow>
                    (case map_of result0 ''text'' of
                       Some text \<Rightarrow> Inr (strip (drop (length prompt) text))
                     | None \<Rightarrow> Inr (py_str result0)))))"

definition generate_response ::
  "(generation \<Rightarrow> string) \<Rightarrow> simple_model_manager \<Rightarrow> string \<Rightarrow> string \<Rightarrow> pydict
     \<Rightarrow> exn + string" where
  "generate_response py_str self model_type prompt kwargs =
     (case pipelines self model_type of
        None \<Rightarrow> Inr (''Model '' @ model_type @ '' not available'')
      | Some pipe \<Rightarrow>
          (case generate_body py_str pipe prompt kwargs of
             Inr text \<Rightarrow> Inr text
           | Inl e \<Rightarrow> Inr (''Error: '' @ str_of e)))"

section \<open>The agents that call the model manager\<close>

text \<open>
  An agent holds the model manager it was constructed with; what it uses of it is the
  method \<^verbatim>\<open>generate_response(model_type, prompt, **kwargs)\<close>.
\<close>

type_synonym generator = "string \<Rightarrow> string \<Rightarrow> pydict \<Rightarrow> exn + string"

text \<open>A triple-quoted text: a line feed, then every line followed by a line feed.\<close>

definition text_block :: "string list \<Rightarrow> string" where
  "text_block lines = CHR 10 # concat (map (\<lambda>l. l @ [CHR 10]) lines)"

subsection \<open>\<^verbatim>\<open>CodingAgent\<close>\<close>

record coding_agent_object =
  coding_model_manager :: generator
  coding_agent_name :: string
  coding_model_type :: string
  coding_system_prompt :: string

definition CodingAgent :: "generator \<Rightarrow> coding_agent_object" where
  "CodingAgent model_manager =
     \<lparr>coding_model_manager = model_manager,
      coding_agent_name = ''CodingAgent'',
      coding_model_type = ''qwen'',
      coding_system_prompt = text_block
        [''You are a Coding Agent specialized in software development and code generation.'',
         ''Your capabilities include:'',
         ''- Writing clean, efficient code in multiple programming languages'',
         ''- Code review and optimization suggestions'',
         ''- Debugging and error resolution'',
         ''- Creating complete project structures'',
         ''- Generating documentation for code'',
         '''',
         ''Always provide:'',
         ''1. Clean, well-commented code'',
         ''2. Proper error handling'',
         ''3. Best practices and conventions'',
         ''4. Performance considerations'',
         ''5. Security considerations when applicable'',
         '''',
         ''Programming languages you excel at: Python, JavaScript, Java, C++, Go, Rust, and more.'']\<rparr>"

definition format_coding_prompt :: "coding_agent_object \<Rightarrow> string \<Rightarrow> string \<Rightarrow> string \<Rightarrow> string" where
  "format_coding_prompt self task language requirements =
     (let prompt = coding_system_prompt self @ [CHR 10, CHR 10];
          prompt = prompt @ ''Coding Task: '' @ task @ [CHR 10];
          prompt = prompt @ ''Programming Language: '' @ language @ [CHR 10];
          prompt = (if requirements \<noteq> []
                    then prompt @ ''Requirements: '' @ requirements @ [CHR 10] else prompt);
          prompt = prompt @ [CHR 10]
                     @ ''Please provide the complete code solution with explanations:''
      in prompt)"

text \<open>
  The pattern of \<^verbatim>\<open>_extract_code_blocks\<close> and \<^verbatim>\<open>_extract_explanation\<close> is six back
  quotes, without a group. \<^verbatim>\<open>re.findall\<close> then yields the matched texts, and unpacking
  one of them into \<^verbatim>\<open>(language, code)\<close> raises ValueError; with no match the list of
  code blocks is empty. \<^verbatim>\<open>re.sub\<close> deletes the matches from left to right.
\<close>

definition fence :: string where
  "fence = replicate 6 (CHR 0x60)"

definition extract_code_blocks :: "string \<Rightarrow> exn + pyval list" where
  "extract_code_blocks response =
     (if substring_in fence response
      then Inl (Exception ''too many values to unpack (expected 2)'')
      else Inr [])"

fun delete_fences :: "string \<Rightarrow> string" where
  "delete_fences (a # b # c # d # e # f # rest) =
     (if a # b # c # d # e # [f] = fence then delete_fences rest
      else a # delete_fences (b # c # d # e # f # rest))"
| "delete_fences s = s"

definition extract_explanation :: "string \<Rightarrow> string" where
  "extract_explanation response = strip (delete_fences response)"

definition generate_code :: "coding_agent_object \<Rightarrow> string \<Rightarrow> string \<Rightarrow> string \<Rightarrow> pydict" where
  "generate_code self task language requirements =
     (let prompt = format_coding_prompt self task language requirements;
          attempt =
            (case coding_model_manager self (coding_model_type self) prompt
                    [(''max_tokens'', PInt 1024), (''temperature'', PFloat (3 / 10))] of
               Inl e \<Rightarrow> Inl e
             | Inr code_response \<Rightarrow>
                 (case extract_code_blocks code_response of
                    Inl e \<Rightarrow> Inl e
                  | Inr code_blocks \<Rightarrow>
                      (let explanation = extract_explanation code_response
                       in Inr [(''agent'', PStr (coding_agent_name self)),
                               (''task'', PStr task),
                               (''language'', PStr language),
                               (''code_blocks'', PList code_blocks),
                               (''explanation'', PStr explanation),
                               (''full_response'', PStr code_response),
                               (''requirements'', PStr requirements),
                               (''status'', PStr ''completed'')])))
      in case attempt of
           Inr result \<Rightarrow> result
         | Inl e \<Rightarrow> [(''agent'', PStr (coding_agent_name self)),
                      (''task'', PStr task),
                      (''error'', PStr (str_of e)),
                      (''status'', PStr ''failed'')])"

subsection \<open>\<^verbatim>\<open>ResearchAgent\<close>\<close>

text \<open>
  The research agent calls \<^verbatim>\<open>async_search\<close> and \<^verbatim>\<open>format_search_results\<close> on its search
  manager. An attribute the object does not have is \<open>None\<close>, and the call raises
  AttributeError. \<^verbatim>\<open>WebSearchManager\<close> in \<^verbatim>\<open>utils/search.py\<close> defines \<^verbatim>\<open>search_web\<close> only.
\<close>

record search_manager =
  async_search :: "(string \<Rightarrow> nat \<Rightarrow> exn + pydict list) option"
  format_search_results :: "(pydict list \<Rightarrow> exn + string) option"

definition attribute_error :: "string \<Rightarrow> string \<Rightarrow> exn" where
  "attribute_error cls attr =
     Exception ([CHR 0x27] @ cls @ [CHR 0x27] @ '' object has no attribute ''
                @ [CHR 0x27] @ attr @ [CHR 0x27])"

definition WebSearchManager :: search_manager where
  "WebSearchManager = \<lparr>async_search = None, format_search_results = None\<rparr>"

record research_agent_object =
  research_model_manager :: generator
  research_search_manager :: search_manager
  research_agent_name :: string
  research_model_type :: string
  research_system_prompt :: string

definition research_prompt_text :: string where
  "research_prompt_text = text_block
     [''You are a Research Agent specialized in conducting comprehensive research on any topic.'',
      ''Your capabilities include:'',
      ''- Web searching and information gathering'',
      ''- Analyzing and synthesizing information from multiple sources'',
      ''- Providing detailed, well-structured research reports'',
      ''- Fact-checking and verifying information accuracy'',
      '''',
      ''Always provide:'',
      ''1. Clear, factual information'',
      ''2. Multiple perspectives when relevant'',
      ''3. Source citations'',
      ''4. Structured, easy-to-read reports'']"

definition ResearchAgent :: "generator \<Rightarrow> research_agent_object" where
  "ResearchAgent model_manager =
     \<lparr>research_model_manager = model_manager,
      research_search_manager = WebSearchManager,
      research_agent_name = ''ResearchAgent'',
      research_model_type = ''phi3'',
      research_system_prompt = research_prompt_text\<rparr>"

definition format_prompt :: "research_agent_object \<Rightarrow> string \<Rightarrow> string \<Rightarrow> string" where
  "format_prompt self query search_results =
     (let prompt = research_system_prompt self @ [CHR 10, CHR 10];
          prompt = (if search_results \<noteq> []
                    then prompt @ ''Based on the following search results:'' @ [CHR 10]
                           @ search_results @ [CHR 10, CHR 10]
                    else prompt);
          prompt = prompt @ ''Research Query: '' @ query @ [CHR 10, CHR 10];
          prompt = prompt @ ''Please provide a comprehensive research report:''
      in prompt)"

definition conduct_research :: "research_agent_object \<Rightarrow> string \<Rightarrow> pydict" where
  "conduct_research self query =
     (let attempt =
            (case (case async_search (research_search_manager self) of
                     None \<Rightarrow> Inl (attribute_error ''WebSearchManager'' ''async_search'')
                   | Some search \<Rightarrow> search query 8) of
               Inl e \<Rightarrow> Inl e
             | Inr search_results \<Rightarrow>
                 (case (case format_search_results (research_search_manager self) of
                          None \<Rightarrow>
                            Inl (attribute_error ''WebSearchManager'' ''format_search_results'')
                        | Some format \<Rightarrow> format search_results) of
                    Inl e \<Rightarrow> Inl e
                  | Inr formatted_results \<Rightarrow>
                      (let prompt = format_prompt self query formatted_results
                       in case research_model_manager self (research_model_type self) prompt
                                 [(''max_tokens'', PInt 1024), (''temperature'', PFloat (7 / 10))] of
                            Inl e \<Rightarrow> Inl e
                          | Inr research_report \<Rightarrow>
                              Inr [(''agent'', PStr (research_agent_name self)),
                                   (''query'', PStr query),
                                   (''research_report'', PStr research_report),
                                   (''sources'', PList (map PDict search_results)),
                                   (''source_count'', PInt (int (length search_results))),
                                   (''status'', PStr ''completed'')])))
      in case attempt of
           Inr result \<Rightarrow> result
         | Inl e \<Rightarrow> [(''agent'', PStr (research_agent_name self)),
                      (''query'', PStr query),
                      (''error'', PStr (str_of e)),
                      (''status'', PStr ''failed'')])"


section \<open>Auxiliary notions for the statements\<close>

text \<open>The three guarded blocks in sequence, from the empty results.\<close>

definition pipeline :: "registry \<Rightarrow> string \<Rightarrow> string list \<Rightarrow> results \<times> call list" where
  "pipeline ags request sel =
     coding_stage ags request sel
       (documentation_stage ags request sel (research_stage ags request sel ([], [])))"

definition stored_record :: "exn + pydict \<Rightarrow> pydict" where
  "stored_record outcome = (case outcome of Inr result \<Rightarrow> result | Inl e \<Rightarrow> failure e)"

definition documentation_input :: "results \<Rightarrow> string \<Rightarrow> pydict" where
  "documentation_input results request =
     (case map_of results ''research'' of
        Some research_result \<Rightarrow> research_result
      | None \<Rightarrow> [(''research_report'', PStr request)])"

section \<open>Test doubles\<close>

text \<open>Concrete agents and orchestrators on which the theorems are instantiated.\<close>

definition raising_agent :: "'a \<Rightarrow> exn + pydict" where
  "raising_agent x = Inl (Exception ''boom'')"

definition echo_documentation :: "pydict \<Rightarrow> exn + pydict" where
  "echo_documentation research_data =
     Inr [(''agent'', PStr ''DocumentationAgent''), (''source'', PDict research_data),
          (''status'', PStr ''completed'')]"

definition stub_coding :: "string \<Rightarrow> exn + pydict" where
  "stub_coding task =
     Inr [(''agent'', PStr ''CodingAgent''), (''task'', PStr task),
          (''status'', PStr ''completed'')]"

definition stub_research :: "string \<Rightarrow> exn + pydict" where
  "stub_research query =
     Inr [(''agent'', PStr ''ResearchAgent''), (''query'', PStr query),
          (''research_report'', PStr ''report''), (''status'', PStr ''completed'')]"

definition failing_research_orchestrator :: orchestrator where
  "failing_research_orchestrator =
     new_orchestrator\<lparr>agents :=
       \<lparr>research_agent = Some raising_agent,
        documentation_agent = Some echo_documentation,
        coding_agent = Some stub_coding\<rparr>\<rparr>"

definition stub_orchestrator :: orchestrator where
  "stub_orchestrator =
     new_orchestrator\<lparr>agents :=
       \<lparr>research_agent = Some stub_research,
        documentation_agent = Some echo_documentation,
        coding_agent = Some stub_coding\<rparr>\<rparr>"

definition scenario_request :: string where
  "scenario_request = ''Please write code for a function that debugs a sorting algorithm''"

definition two_requests :: orchestrator where
  "two_requests =
     fst (snd (process_user_request
       (fst (snd (process_user_request stub_orchestrator (Inr 0) ''find it'' None)))
       (Inr 1) ''Hello there'' None))"

text \<open>
  Model managers without a pipeline and with a pipeline that raises, a stand-in for
  Python's \<^verbatim>\<open>str\<close> of a dictionary, and a search manager whose two methods return.
\<close>

definition no_models :: simple_model_manager where
  "no_models = \<lparr>pipelines = Map.empty\<rparr>"

definition failing_pipe :: pipe where
  "failing_pipe prompt max_new_tokens = Inl (Exception ''CUDA out of memory'')"

definition failing_model :: simple_model_manager where
  "failing_model = \<lparr>pipelines = [''phi3'' \<mapsto> failing_pipe]\<rparr>"

definition braces :: "generation \<Rightarrow> string" where
  "braces d = ''{}''"

definition stub_search :: "string \<Rightarrow> nat \<Rightarrow> exn + pydict list" where
  "stub_search query max_results = Inr []"

definition stub_format :: "pydict list \<Rightarrow> exn + string" where
  "stub_format results = Inr ''No search results found.''"

definition stub_search_manager :: search_manager where
  "stub_search_manager =
     \<lparr>async_search = Some stub_search, format_search_results = Some stub_format\<rparr>"

section \<open>Properties of the router\<close>

lemma substring_in_sublist: "substring_in kw s \<longleftrightarrow> sublist kw s"
  by (induction s) (auto simp: sublist_Cons_right)

lemma determine_agents_needed_cases:
  "determine_agents_needed r =
     (let m = filter (\<lambda>c. (c = ''research'' \<and> any_in research_keywords (lower r))
                        \<or> (c = ''documentation'' \<and> any_in doc_keywords (lower r))
                        \<or> (c = ''coding'' \<and> any_in code_keywords (lower r)))
                priority_order
      in if m = [] then [''research''] else m)"
  by (simp add: determine_agents_needed_def priority_order_def Let_def)

lemma determine_agents_needed_subseq:
  "subseq (determine_agents_needed r) priority_order"
  by (simp add: determine_agents_needed_def priority_order_def Let_def)

lemma determine_agents_needed_distinct:
  "distinct (determine_agents_needed r)"
  by (simp add: determine_agents_needed_def Let_def)

text \<open>
  Claim C5. The list the router returns is a subsequence of the fixed order research,
  documentation, coding and names no capability twice; it is the fixed order filtered
  to the keyword sets that match (or the default), so it depends on the text only
  through which of the three keyword sets match: two texts that match the same sets
  get the same list, wherever the keywords stand in them.
\<close>

theorem router_fixed_order:
  "subseq (determine_agents_needed r) priority_order
   \<and> distinct (determine_agents_needed r)
   \<and> determine_agents_needed r =
       (let m = filter (\<lambda>c. (c = ''research'' \<and> any_in research_keywords (lower r))
                          \<or> (c = ''documentation'' \<and> any_in doc_keywords (lower r))
                          \<or> (c = ''coding'' \<and> any_in code_keywords (lower r)))
                  priority_order
        in if m = [] then [''research''] else m)
   \<and> (any_in research_keywords (lower r) = any_in research_keywords (lower r')
        \<and> any_in doc_keywords (lower r) = any_in doc_keywords (lower r')
        \<and> any_in code_keywords (lower r) = any_in code_keywords (lower r')
      \<longrightarrow> determine_agents_needed r = determine_agents_needed r')"
proof -
  have "determine_agents_needed r = determine_agents_needed r'"
    if "any_in research_keywords (lower r) = any_in research_keywords (lower r')"
      and "any_in doc_keywords (lower r) = any_in doc_keywords (lower r')"
      and "any_in code_keywords (lower r) = any_in code_keywords (lower r')"
    using that by (simp add: determine_agents_needed_def)
  then show ?thesis
    using determine_agents_needed_subseq [of r] determine_agents_needed_distinct [of r]
      determine_agents_needed_cases [of r]
    by blast
qed

theorem router_fixed_order_witness:
  "any_in research_keywords (lower ''Debug it, then SEARCH'')
     = any_in research_keywords (lower ''search and debug'')
   \<and> any_in doc_keywords (lower ''Debug it, then SEARCH'')
     = any_in doc_keywords (lower ''search and debug'')
   \<and> any_in code_keywords (lower ''Debug it, then SEARCH'')
     = any_in code_keywords (lower ''search and debug'')
   \<and> determine_agents_needed ''Debug it, then SEARCH'' = [''research'', ''coding'']
   \<and> determine_agents_needed ''search and debug'' = [''research'', ''coding'']
   \<and> subseq (determine_agents_needed ''Debug it, then SEARCH'') priority_order
   \<and> distinct (determine_agents_needed ''Debug it, then SEARCH'')"
proof -
  have a: "any_in research_keywords (lower ''Debug it, then SEARCH'')
     = any_in research_keywords (lower ''search and debug'')"
    by code_simp
  have b: "any_in doc_keywords (lower ''Debug it, then SEARCH'')
     = any_in doc_keywords (lower ''search and debug'')"
    by code_simp
  have c: "any_in code_keywords (lower ''Debug it, then SEARCH'')
     = any_in code_keywords (lower ''search and debug'')"
    by code_simp
  have d: "determine_agents_needed ''search and debug'' = [''research'', ''coding'']"
    by code_simp
  note t = router_fixed_order [of "''Debug it, then SEARCH''" "''search and debug''"]
  from t have s: "subseq (determine_agents_needed ''Debug it, then SEARCH'') priority_order"
    by (rule conjunct1)
  from t have di: "distinct (determine_agents_needed ''Debug it, then SEARCH'')"
    by blast
  from t a b c
  have e: "determine_agents_needed ''Debug it, then SEARCH''
             = determine_agents_needed ''search and debug''"
    by blast
  from a b c d e s di show ?thesis by simp
qed

text \<open>
  Claim C6. A request whose lower-cased text contains no keyword of the research, the
  documentation or the coding keyword set is routed to exactly \<open>[research]\<close>.
\<close>

theorem router_default_research:
  assumes "\<not> any_in research_keywords (lower r)"
    and "\<not> any_in doc_keywords (lower r)"
    and "\<not> any_in code_keywords (lower r)"
  shows "determine_agents_needed r = [''research'']"
  using assms by (simp add: determine_agents_needed_def)

theorem router_default_research_witness:
  "\<not> any_in research_keywords (lower ''Hello there'')
   \<and> \<not> any_in doc_keywords (lower ''Hello there'')
   \<and> \<not> any_in code_keywords (lower ''Hello there'')
   \<and> determine_agents_needed ''Hello there'' = [''research'']"
proof -
  have a: "\<not> any_in research_keywords (lower ''Hello there'')" by code_simp
  have b: "\<not> any_in doc_keywords (lower ''Hello there'')" by code_simp
  have c: "\<not> any_in code_keywords (lower ''Hello there'')" by code_simp
  from a b c router_default_research [OF a b c] show ?thesis by simp
qed

section \<open>Properties of the pipeline\<close>

lemma try_store_eq: "try_store key outcome results = AList.update key (stored_record outcome) results"
  by (simp add: try_store_def stored_record_def split: sum.splits)

lemma stored_record_cases:
  "stored_record outcome =
     (case outcome of
        Inr result \<Rightarrow> result
      | Inl e \<Rightarrow> [(''error'', PStr (str_of e)), (''status'', PStr ''failed'')])"
  by (simp add: stored_record_def failure_def split: sum.splits)

lemma process_user_request_Inr:
  "process_user_request self (Inr t) request selected =
     (Completed (length (conversation_history self)) request
        (fst (pipeline (agents self) request (effective_agents request selected))),
      self\<lparr>conversation_history := conversation_history self @
        [\<lparr>entry_id = length (conversation_history self),
          entry_request = request,
          entry_selected_agents = effective_agents request selected,
          entry_results = fst (pipeline (agents self) request (effective_agents request selected)),
          entry_timestamp = t\<rparr>]\<rparr>,
      snd (pipeline (agents self) request (effective_agents request selected)))"
  by (simp add: process_user_request_def pipeline_def Let_def split: prod.splits)

lemma process_user_request_Inl:
  "process_user_request self (Inl e) request selected =
     (Failed request (str_of e), self,
      snd (pipeline (agents self) request (effective_agents request selected)))"
  by (simp add: process_user_request_def pipeline_def Let_def split: prod.splits)

lemma research_stage_eq:
  "research_stage ags request sel ([], []) =
     (if ''research'' \<in> set sel
      then ([(''research'', stored_record (fst (invoke_research ags request)))],
            snd (invoke_research ags request))
      else ([], []))"
  by (simp add: research_stage_def try_store_eq split: prod.splits)

lemma documentation_stage_eq:
  "documentation_stage ags request sel (results, calls) =
     (if ''documentation'' \<in> set sel
      then (AList.update ''documentation''
              (stored_record (fst (invoke_documentation ags (documentation_input results request))))
              results,
            calls @ snd (invoke_documentation ags (documentation_input results request)))
      else (results, calls))"
  by (simp add: documentation_stage_def documentation_input_def try_store_eq Let_def
      split: prod.splits)

lemma coding_stage_eq:
  "coding_stage ags request sel (results, calls) =
     (if ''coding'' \<in> set sel \<and> is_coding_request request
      then (AList.update ''coding'' (stored_record (fst (invoke_coding ags request))) results,
            calls @ snd (invoke_coding ags request))
      else (results, calls))"
  by (simp add: coding_stage_def try_store_eq split: prod.splits)

lemma pipeline_results:
  "fst (pipeline ags request sel) =
     (if ''research'' \<in> set sel
      then [(''research'', stored_record (fst (invoke_research ags request)))] else [])
     @ (if ''documentation'' \<in> set sel
        then [(''documentation'',
               stored_record (fst (invoke_documentation ags
                 (if ''research'' \<in> set sel
                  then stored_record (fst (invoke_research ags request))
                  else [(''research_report'', PStr request)]))))]
        else [])
     @ (if ''coding'' \<in> set sel \<and> is_coding_request request
        then [(''coding'', stored_record (fst (invoke_coding ags request)))] else [])"
  by (simp add: pipeline_def research_stage_eq documentation_stage_eq coding_stage_eq
      documentation_input_def)

lemma pipeline_calls:
  "snd (pipeline ags request sel) =
     (if ''research'' \<in> set sel then snd (invoke_research ags request) else [])
     @ (if ''documentation'' \<in> set sel
        then snd (invoke_documentation ags
                 (if ''research'' \<in> set sel
                  then stored_record (fst (invoke_research ags request))
                  else [(''research_report'', PStr request)]))
        else [])
     @ (if ''coding'' \<in> set sel \<and> is_coding_request request
        then snd (invoke_coding ags request) else [])"
  by (simp add: pipeline_def research_stage_eq documentation_stage_eq coding_stage_eq
      documentation_input_def)


lemmas stub_defs =
  failing_research_orchestrator_def new_orchestrator_def effective_agents_def
  invoke_research_def invoke_documentation_def invoke_coding_def stored_record_def
  raising_agent_def echo_documentation_def stub_coding_def stub_research_def failure_def

text \<open>
  Claim C1. A run whose clock read returns completes and appends its entry whatever the
  agents do. For each capability that is executed (research and documentation when
  selected, coding when selected and the strict predicate holds), the entry under its
  key is the agent's result, or, when the invocation raises \<open>e\<close>, the failure record
  \<open>{"error": str(e), "status": "failed"}\<close>; and the calls made on the agents are those
  of all executed capabilities in order, whether or not an earlier one raised.
\<close>

theorem capability_failure_isolated:
  assumes "process_user_request self (Inr t) request selected = (resp, self', calls)"
  shows "resp = Completed (length (conversation_history self)) request (response_results resp)
    \<and> length (conversation_history self') = Suc (length (conversation_history self))
    \<and> (''research'' \<in> set (effective_agents request selected) \<longrightarrow>
         map_of (response_results resp) ''research''
           = Some (case fst (invoke_research (agents self) request) of
                     Inr result \<Rightarrow> result
                   | Inl e \<Rightarrow> [(''error'', PStr (str_of e)), (''status'', PStr ''failed'')]))
    \<and> (''documentation'' \<in> set (effective_agents request selected) \<longrightarrow>
         map_of (response_results resp) ''documentation''
           = Some (case fst (invoke_documentation (agents self)
                          (case map_of (response_results resp) ''research'' of
                             Some research_result \<Rightarrow> research_result
                           | None \<Rightarrow> [(''research_report'', PStr request)])) of
                     Inr result \<Rightarrow> result
                   | Inl e \<Rightarrow> [(''error'', PStr (str_of e)), (''status'', PStr ''failed'')]))
    \<and> (''coding'' \<in> set (effective_agents request selected) \<and> is_coding_request request \<longrightarrow>
         map_of (response_results resp) ''coding''
           = Some (case fst (invoke_coding (agents self) request) of
                     Inr result \<Rightarrow> result
                   | Inl e \<Rightarrow> [(''error'', PStr (str_of e)), (''status'', PStr ''failed'')]))
    \<and> calls =
        (if ''research'' \<in> set (effective_agents request selected)
         then snd (invoke_research (agents self) request) else [])
        @ (if ''documentation'' \<in> set (effective_agents request selected)
           then snd (invoke_documentation (agents self)
                  (case map_of (response_results resp) ''research'' of
                     Some research_result \<Rightarrow> research_result
                   | None \<Rightarrow> [(''research_report'', PStr request)]))
           else [])
        @ (if ''coding'' \<in> set (effective_agents request selected) \<and> is_coding_request request
           then snd (invoke_coding (agents self) request) else [])"
proof -
  let ?sel = "effective_agents request selected"
  let ?p = "pipeline (agents self) request ?sel"
  from assms have resp: "resp = Completed (length (conversation_history self)) request (fst ?p)"
    and self': "self' = self\<lparr>conversation_history := conversation_history self @
        [\<lparr>entry_id = length (conversation_history self),
          entry_request = request,
          entry_selected_agents = ?sel,
          entry_results = fst ?p,
          entry_timestamp = t\<rparr>]\<rparr>"
    and calls: "calls = snd ?p"
    by (simp_all add: process_user_request_Inr)
  have r: "response_results resp = fst ?p" using resp by simp
  show ?thesis
    unfolding r
    apply (intro conjI)
    subgoal using resp by simp
    subgoal using self' by simp
    subgoal by (simp add: pipeline_results stored_record_cases)
    subgoal by (simp add: pipeline_results stored_record_cases)
    subgoal by (simp add: pipeline_results stored_record_cases)
    subgoal unfolding calls by (simp add: pipeline_results pipeline_calls)
    done
qed


theorem capability_failure_isolated_witness:
  "process_user_request failing_research_orchestrator (Inr 0) ''debug this''
       (Some [''research'', ''documentation'', ''coding''])
     = (Completed 0 ''debug this''
          [(''research'', [(''error'', PStr ''boom''), (''status'', PStr ''failed'')]),
           (''documentation'',
              [(''agent'', PStr ''DocumentationAgent''),
               (''source'', PDict [(''error'', PStr ''boom''), (''status'', PStr ''failed'')]),
               (''status'', PStr ''completed'')]),
           (''coding'',
              [(''agent'', PStr ''CodingAgent''), (''task'', PStr ''debug this''),
               (''status'', PStr ''completed'')])],
        failing_research_orchestrator\<lparr>conversation_history :=
          [\<lparr>entry_id = 0, entry_request = ''debug this'',
            entry_selected_agents = [''research'', ''documentation'', ''coding''],
            entry_results =
              [(''research'', [(''error'', PStr ''boom''), (''status'', PStr ''failed'')]),
               (''documentation'',
                  [(''agent'', PStr ''DocumentationAgent''),
                   (''source'', PDict [(''error'', PStr ''boom''), (''status'', PStr ''failed'')]),
                   (''status'', PStr ''completed'')]),
               (''coding'',
                  [(''agent'', PStr ''CodingAgent''), (''task'', PStr ''debug this''),
                   (''status'', PStr ''completed'')])],
            entry_timestamp = 0\<rparr>]\<rparr>,
        [ConductResearch ''debug this'',
         CreateDocumentation [(''error'', PStr ''boom''), (''status'', PStr ''failed'')],
         GenerateCode ''debug this''])
   \<and> fst (invoke_research (agents failing_research_orchestrator) ''debug this'')
       = Inl (Exception ''boom'')
   \<and> ''research'' \<in> set (effective_agents ''debug this''
                           (Some [''research'', ''documentation'', ''coding'']))
   \<and> ''documentation'' \<in> set (effective_agents ''debug this''
                           (Some [''research'', ''documentation'', ''coding'']))
   \<and> ''coding'' \<in> set (effective_agents ''debug this''
                           (Some [''research'', ''documentation'', ''coding'']))
   \<and> is_coding_request ''debug this''"
proof -
  have g: "is_coding_request ''debug this''" by code_simp
  have run: "process_user_request failing_research_orchestrator (Inr 0) ''debug this''
       (Some [''research'', ''documentation'', ''coding''])
     = (Completed 0 ''debug this''
          [(''research'', [(''error'', PStr ''boom''), (''status'', PStr ''failed'')]),
           (''documentation'',
              [(''agent'', PStr ''DocumentationAgent''),
               (''source'', PDict [(''error'', PStr ''boom''), (''status'', PStr ''failed'')]),
               (''status'', PStr ''completed'')]),
           (''coding'',
              [(''agent'', PStr ''CodingAgent''), (''task'', PStr ''debug this''),
               (''status'', PStr ''completed'')])],
        failing_research_orchestrator\<lparr>conversation_history :=
          [\<lparr>entry_id = 0, entry_request = ''debug this'',
            entry_selected_agents = [''research'', ''documentation'', ''coding''],
            entry_results =
              [(''research'', [(''error'', PStr ''boom''), (''status'', PStr ''failed'')]),
               (''documentation'',
                  [(''agent'', PStr ''DocumentationAgent''),
                   (''source'', PDict [(''error'', PStr ''boom''), (''status'', PStr ''failed'')]),
                   (''status'', PStr ''completed'')]),
               (''coding'',
                  [(''agent'', PStr ''CodingAgent''), (''task'', PStr ''debug this''),
                   (''status'', PStr ''completed'')])],
            entry_timestamp = 0\<rparr>]\<rparr>,
        [ConductResearch ''debug this'',
         CreateDocumentation [(''error'', PStr ''boom''), (''status'', PStr ''failed'')],
         GenerateCode ''debug this''])"
    by (simp add: process_user_request_Inr pipeline_results pipeline_calls stub_defs g)
  from capability_failure_isolated [OF run] g run show ?thesis
    by (simp add: stub_defs)
qed

lemma process_user_request_Inr_elims:
  assumes "process_user_request self (Inr t) request selected = (resp, self', calls)"
  shows "resp = Completed (length (conversation_history self)) request
                  (fst (pipeline (agents self) request (effective_agents request selected)))"
    and "self' = self\<lparr>conversation_history := conversation_history self @
        [\<lparr>entry_id = length (conversation_history self),
          entry_request = request,
          entry_selected_agents = effective_agents request selected,
          entry_results = fst (pipeline (agents self) request (effective_agents request selected)),
          entry_timestamp = t\<rparr>]\<rparr>"
    and "calls = snd (pipeline (agents self) request (effective_agents request selected))"
  using assms by (simp_all add: process_user_request_Inr)

lemma pipeline_keys:
  "map fst (fst (pipeline ags request sel)) =
     filter (\<lambda>c. (c = ''research'' \<and> ''research'' \<in> set sel)
                \<or> (c = ''documentation'' \<and> ''documentation'' \<in> set sel)
                \<or> (c = ''coding'' \<and> ''coding'' \<in> set sel \<and> is_coding_request request))
       priority_order"
  by (simp add: pipeline_results priority_order_def)

lemma pipeline_has_key:
  "k \<in> fst ` set (fst (pipeline ags request sel)) \<longleftrightarrow>
     (k = ''research'' \<and> ''research'' \<in> set sel)
     \<or> (k = ''documentation'' \<and> ''documentation'' \<in> set sel)
     \<or> (k = ''coding'' \<and> ''coding'' \<in> set sel \<and> is_coding_request request)"
proof -
  have "fst ` set (fst (pipeline ags request sel))
          = set (map fst (fst (pipeline ags request sel)))"
    by simp
  then show ?thesis
    unfolding pipeline_keys by (auto simp: priority_order_def)
qed


lemma invoke_coding_calls:
  "snd (invoke_coding ags r) = (if coding_agent ags = None then [] else [GenerateCode r])"
  by (simp add: invoke_coding_def split: option.splits)

lemma invoke_research_calls:
  "set (snd (invoke_research ags r)) \<subseteq> {ConductResearch r}"
  by (simp add: invoke_research_def split: option.splits)

lemma invoke_documentation_calls_subset:
  "set (snd (invoke_documentation ags d)) \<subseteq> {CreateDocumentation d}"
  by (simp add: invoke_documentation_def split: option.splits)


text \<open>
  Claim C4. In a run in which coding is selected, by the router or by the caller, the
  results have a \<open>"coding"\<close> key exactly when the strict predicate holds for the request
  text, and the registered coding agent is called exactly then; when the predicate does
  not hold there is no \<open>"coding"\<close> entry, not even a failure record, and no call.
\<close>

theorem coding_gate:
  assumes "process_user_request self (Inr t) request selected = (resp, self', calls)"
    and "''coding'' \<in> set (effective_agents request selected)"
  shows "(''coding'' \<in> fst ` set (response_results resp) \<longleftrightarrow> is_coding_request request)
    \<and> (coding_agent (agents self) \<noteq> None \<longrightarrow>
         (GenerateCode request \<in> set calls \<longleftrightarrow> is_coding_request request))
    \<and> (\<not> is_coding_request request \<longrightarrow>
         map_of (response_results resp) ''coding'' = None
         \<and> (\<forall>task. GenerateCode task \<notin> set calls))"
proof -
  let ?sel = "effective_agents request selected"
  note e = process_user_request_Inr_elims [OF assms(1)]
  have r: "response_results resp = fst (pipeline (agents self) request ?sel)"
    using e(1) by simp
  have a: "''coding'' \<in> fst ` set (response_results resp) \<longleftrightarrow> is_coding_request request"
    unfolding r using assms(2) by (simp add: pipeline_has_key)
  have b: "GenerateCode request \<in> set calls \<longleftrightarrow> is_coding_request request"
    if "coding_agent (agents self) \<noteq> None"
    unfolding e(3) using assms(2) that invoke_research_calls [of "agents self" request]
      invoke_documentation_calls_subset [of "agents self"]
    by (auto simp: pipeline_calls invoke_coding_calls)
  have c: "map_of (response_results resp) ''coding'' = None"
    if "\<not> is_coding_request request"
    unfolding r using that by (simp add: pipeline_results)
  have d: "\<forall>task. GenerateCode task \<notin> set calls"
    if "\<not> is_coding_request request"
    unfolding e(3) using that invoke_research_calls [of "agents self" request]
      invoke_documentation_calls_subset [of "agents self"]
    by (auto simp: pipeline_calls)
  from a b c d show ?thesis by blast
qed


lemma run_response:
  "fst (process_user_request self (Inr t) request selected) =
     Completed (length (conversation_history self)) request
       (fst (pipeline (agents self) request (effective_agents request selected)))"
  by (simp add: process_user_request_Inr)

lemma run_calls:
  "snd (snd (process_user_request self (Inr t) request selected)) =
     snd (pipeline (agents self) request (effective_agents request selected))"
  by (simp add: process_user_request_Inr)

lemma run_history:
  "conversation_history (fst (snd (process_user_request self (Inr t) request selected))) =
     conversation_history self @
        [\<lparr>entry_id = length (conversation_history self),
          entry_request = request,
          entry_selected_agents = effective_agents request selected,
          entry_results = fst (pipeline (agents self) request (effective_agents request selected)),
          entry_timestamp = t\<rparr>]"
  by (simp add: process_user_request_Inr)

lemma run_agents:
  "agents (fst (snd (process_user_request self clock request selected))) = agents self"
  by (cases clock) (simp_all add: process_user_request_Inr process_user_request_Inl)

lemma run_triple:
  "process_user_request self clock request selected =
     (fst (process_user_request self clock request selected),
      fst (snd (process_user_request self clock request selected)),
      snd (snd (process_user_request self clock request selected)))"
  by simp

lemmas stub_eval =
  run_response run_calls run_history pipeline_results pipeline_calls stub_defs stub_orchestrator_def


theorem coding_gate_witness:
  "determine_agents_needed ''fix the script'' = [''coding'']
   \<and> ''coding'' \<in> set (effective_agents ''fix the script'' None)
   \<and> coding_agent (agents stub_orchestrator) \<noteq> None
   \<and> \<not> is_coding_request ''fix the script''
   \<and> response_results (fst (process_user_request stub_orchestrator (Inr 0) ''fix the script'' None))
       = []
   \<and> (\<forall>task. GenerateCode task
         \<notin> set (snd (snd (process_user_request stub_orchestrator (Inr 0) ''fix the script'' None))))"
proof -
  let ?p = "process_user_request stub_orchestrator (Inr 0) ''fix the script'' None"
  have route: "determine_agents_needed ''fix the script'' = [''coding'']" by code_simp
  have sel: "''coding'' \<in> set (effective_agents ''fix the script'' None)"
    by (simp add: effective_agents_def route)
  have ag: "coding_agent (agents stub_orchestrator) \<noteq> None"
    by (simp add: stub_orchestrator_def new_orchestrator_def)
  have g: "\<not> is_coding_request ''fix the script''" by code_simp
  have res: "response_results (fst ?p) = []"
    by (simp add: stub_eval route g)
  from coding_gate [OF run_triple sel] g
  have "\<forall>task. GenerateCode task \<notin> set (snd (snd ?p))"
    by blast
  with route sel ag g res show ?thesis by blast
qed




text \<open>
  Claim C8, as amended. For the request "Please write code for a function that debugs a
  sorting algorithm" the strict coding predicate holds; the router returns
  \<open>[documentation, coding]\<close>, because the documentation keyword "write" occurs in the
  text; that list is the one stored in the entry, and the results have exactly the two
  keys \<open>documentation\<close> and \<open>coding\<close>, in this order.
\<close>

theorem sorting_scenario:
  assumes "process_user_request self (Inr t) scenario_request None = (resp, self', calls)"
  shows "is_coding_request scenario_request
    \<and> determine_agents_needed scenario_request = [''documentation'', ''coding'']
    \<and> entry_selected_agents (last (conversation_history self')) = [''documentation'', ''coding'']
    \<and> map fst (response_results resp) = [''documentation'', ''coding'']
    \<and> map fst (entry_results (last (conversation_history self'))) = [''documentation'', ''coding'']"
proof -
  have g: "is_coding_request scenario_request" by code_simp
  have route: "determine_agents_needed scenario_request = [''documentation'', ''coding'']"
    by code_simp
  note el = process_user_request_Inr_elims [OF assms]
  have sel: "effective_agents scenario_request None = [''documentation'', ''coding'']"
    by (simp add: effective_agents_def route)
  have k: "map fst (response_results resp) = [''documentation'', ''coding'']"
    unfolding el(1) by (simp add: pipeline_keys sel g priority_order_def)
  have l: "last (conversation_history self') =
        \<lparr>entry_id = length (conversation_history self),
          entry_request = scenario_request,
          entry_selected_agents = effective_agents scenario_request None,
          entry_results = fst (pipeline (agents self) scenario_request
                                 (effective_agents scenario_request None)),
          entry_timestamp = t\<rparr>"
    unfolding el(2) by simp
  have k': "map fst (entry_results (last (conversation_history self')))
              = [''documentation'', ''coding'']"
    unfolding l by (simp add: pipeline_keys sel g priority_order_def)
  from g route k k' l sel show ?thesis by simp
qed

theorem sorting_scenario_witness:
  "is_coding_request scenario_request
   \<and> map fst (response_results (fst (process_user_request stub_orchestrator (Inr 0)
                 scenario_request None)))
       = [''documentation'', ''coding'']
   \<and> entry_selected_agents (last (conversation_history (fst (snd
         (process_user_request stub_orchestrator (Inr 0) scenario_request None)))))
       = [''documentation'', ''coding'']"
  using sorting_scenario [OF run_triple, of stub_orchestrator 0] by simp

text \<open>
  The claim as stated fails: the routed list is not \<open>[coding]\<close>, the documentation agent
  is called before the coding agent, and \<open>coding\<close> is not the only key of the results.
\<close>

theorem sorting_scenario_counterexample:
  "determine_agents_needed scenario_request \<noteq> [''coding'']
   \<and> snd (snd (process_user_request stub_orchestrator (Inr 0) scenario_request None))
       = [CreateDocumentation [(''research_report'', PStr scenario_request)],
          GenerateCode scenario_request]
   \<and> map fst (response_results (fst (process_user_request stub_orchestrator (Inr 0)
                 scenario_request None)))
       \<noteq> [''coding'']"
proof -
  have g: "is_coding_request scenario_request" by code_simp
  have route: "determine_agents_needed scenario_request = [''documentation'', ''coding'']"
    by code_simp
  show ?thesis
    by (simp add: stub_eval route g)
qed

text \<open>
  Claim C9, as amended. The list stored in the entry of a processed request is the list
  the run used. When the caller passes no list or the empty list it is the router's
  list, a subsequence of the fixed priority order without repetition; a non-empty list
  passed by the caller is stored as it was passed.
\<close>

theorem stored_capability_list:
  assumes "process_user_request self (Inr t) request selected = (resp, self', calls)"
  shows "conversation_history self' \<noteq> []
    \<and> butlast (conversation_history self') = conversation_history self
    \<and> entry_selected_agents (last (conversation_history self'))
        = effective_agents request selected
    \<and> (selected = None \<or> selected = Some [] \<longrightarrow>
         entry_selected_agents (last (conversation_history self'))
           = determine_agents_needed request
         \<and> subseq (entry_selected_agents (last (conversation_history self'))) priority_order
         \<and> distinct (entry_selected_agents (last (conversation_history self'))))
    \<and> (\<forall>explicit. selected = Some explicit \<and> explicit \<noteq> [] \<longrightarrow>
         entry_selected_agents (last (conversation_history self')) = explicit)"
proof -
  note el = process_user_request_Inr_elims [OF assms]
  have l: "entry_selected_agents (last (conversation_history self'))
             = effective_agents request selected"
    unfolding el(2) by simp
  have r: "effective_agents request selected = determine_agents_needed request"
    if "selected = None \<or> selected = Some []"
    using that by (auto simp: effective_agents_def)
  have x: "effective_agents request selected = explicit"
    if "selected = Some explicit \<and> explicit \<noteq> []" for explicit
    using that by (cases explicit) (auto simp: effective_agents_def)
  have h: "conversation_history self' \<noteq> []"
    "butlast (conversation_history self') = conversation_history self"
    unfolding el(2) by simp_all
  from h l r x determine_agents_needed_subseq [of request]
    determine_agents_needed_distinct [of request]
  show ?thesis by simp
qed

theorem stored_capability_list_witness:
  "entry_selected_agents (last (conversation_history (fst (snd
       (process_user_request stub_orchestrator (Inr 0) ''search and debug'' None)))))
     = [''research'', ''coding'']
   \<and> subseq [''research'', ''coding''] priority_order
   \<and> distinct [''research'', ''coding'']
   \<and> entry_selected_agents (last (conversation_history (fst (snd
       (process_user_request stub_orchestrator (Inr 0) ''search and debug''
          (Some [''coding''])))))) = [''coding'']"
proof -
  have route: "determine_agents_needed ''search and debug'' = [''research'', ''coding'']"
    by code_simp
  from stored_capability_list [OF run_triple, of stub_orchestrator 0 "''search and debug''" None]
  have a: "entry_selected_agents (last (conversation_history (fst (snd
       (process_user_request stub_orchestrator (Inr 0) ''search and debug'' None)))))
     = determine_agents_needed ''search and debug''"
    by blast
  from stored_capability_list [OF run_triple, of stub_orchestrator 0 "''search and debug''"
      "Some [''coding'']"]
  have b: "entry_selected_agents (last (conversation_history (fst (snd
       (process_user_request stub_orchestrator (Inr 0) ''search and debug''
          (Some [''coding''])))))) = [''coding'']"
    by (simp add: effective_agents_def)
  show ?thesis
    unfolding a b route by (simp add: priority_order_def)
qed

text \<open>
  The claim as stated fails for a list passed by the caller: it is stored unchanged,
  out of order and with its repetition.
\<close>

theorem stored_capability_list_counterexample:
  "entry_selected_agents (last (conversation_history (fst (snd
       (process_user_request stub_orchestrator (Inr 0) ''Hello there''
          (Some [''coding'', ''research'', ''coding''])))))) = [''coding'', ''research'', ''coding'']
   \<and> \<not> subseq [''coding'', ''research'', ''coding''] priority_order
   \<and> \<not> distinct [''coding'', ''research'', ''coding'']"
  by (simp add: run_history effective_agents_def priority_order_def)


section \<open>Properties of the conversation history\<close>

text \<open>
  For a limit of at least 1 the slice is the last \<open>min(limit, N)\<close> entries, in the order
  of the history.
\<close>

lemma get_conversation_history_positive:
  "1 \<le> limit \<Longrightarrow>
     get_conversation_history self limit
       = drop (length (conversation_history self) - nat limit) (conversation_history self)"
proof -
  assume l: "1 \<le> limit"
  have "nat (max (int (length (conversation_history self)) - limit) 0)
          = length (conversation_history self) - nat limit"
    using l by linarith
  with l show ?thesis
    by (simp add: get_conversation_history_def Let_def)
qed

lemma get_conversation_history_positive_length:
  "1 \<le> limit \<Longrightarrow>
     int (length (get_conversation_history self limit))
       = min limit (int (length (conversation_history self)))"
  by (simp add: get_conversation_history_positive)

text \<open>With limit 0 the slice starts at index 0: the whole history is returned.\<close>

lemma get_conversation_history_zero:
  "get_conversation_history self 0 = conversation_history self"
  by (simp add: get_conversation_history_def)

lemma two_requests_history:
  "map entry_id (conversation_history two_requests) = [0, 1]
   \<and> map entry_request (conversation_history two_requests) = [''find it'', ''Hello there'']"
  by (simp add: two_requests_def run_history stub_orchestrator_def new_orchestrator_def)

text \<open>
  Claim C7, at the input where the code departs from it. After two processed requests
  the history holds \<open>N = 2\<close> entries with ids 0 and 1. \<^verbatim>\<open>get_conversation_history(0)\<close>
  is the slice \<^verbatim>\<open>[-0:]\<close>, that is \<^verbatim>\<open>[0:]\<close>: it returns both entries, where the claim
  asks for \<open>min(0, 2) = 0\<close> entries.
\<close>

theorem history_limit_zero_returns_all:
  "length (conversation_history two_requests) = 2
   \<and> get_conversation_history two_requests 0 = conversation_history two_requests
   \<and> map entry_id (get_conversation_history two_requests 0) = [0, 1]
   \<and> int (length (get_conversation_history two_requests 0)) = 2
   \<and> min 0 (int (length (conversation_history two_requests))) = 0
   \<and> int (length (get_conversation_history two_requests 0))
       \<noteq> min 0 (int (length (conversation_history two_requests)))"
proof -
  have n: "length (conversation_history two_requests) = 2"
    using two_requests_history by (metis length_map length_Cons list.size(3) numeral_2_eq_2)
  have r: "get_conversation_history two_requests 0 = conversation_history two_requests"
    by (simp add: get_conversation_history_def)
  from n r two_requests_history show ?thesis by simp
qed

section \<open>Properties of the model manager and the agents\<close>

lemma generate_response_unavailable:
  "pipelines mm model_type = None \<Longrightarrow>
     generate_response py_str mm model_type prompt kwargs
       = Inr (''Model '' @ model_type @ '' not available'')"
  by (simp add: generate_response_def)

lemma generate_response_error:
  "pipelines mm model_type = Some pipe \<Longrightarrow> generate_body py_str pipe prompt kwargs = Inl e \<Longrightarrow>
     generate_response py_str mm model_type prompt kwargs = Inr (''Error: '' @ str_of e)"
  by (simp add: generate_response_def)

lemma generate_response_returns:
  "\<exists>text. generate_response py_str mm model_type prompt kwargs = Inr text"
  by (simp add: generate_response_def split: option.splits sum.splits)

lemma generate_body_pipe_raises:
  "pipe prompt (case map_of kwargs ''max_tokens'' of Some v \<Rightarrow> v | None \<Rightarrow> PInt 512) = Inl e
     \<Longrightarrow> generate_body py_str pipe prompt kwargs = Inl e"
  by (simp add: generate_body_def)

lemma qwen_message_plain:
  "\<not> substring_in fence ''Model qwen not available''"
  "delete_fences ''Model qwen not available'' = ''Model qwen not available''"
  "strip ''Model qwen not available'' = ''Model qwen not available''"
  by code_simp+

lemma generate_code_completed:
  assumes "coding_model_manager a (coding_model_type a)
             (format_coding_prompt a task language requirements)
             [(''max_tokens'', PInt 1024), (''temperature'', PFloat (3 / 10))] = Inr text"
    and "\<not> substring_in fence text"
  shows "generate_code a task language requirements =
           [(''agent'', PStr (coding_agent_name a)),
            (''task'', PStr task),
            (''language'', PStr language),
            (''code_blocks'', PList []),
            (''explanation'', PStr (strip (delete_fences text))),
            (''full_response'', PStr text),
            (''requirements'', PStr requirements),
            (''status'', PStr ''completed'')]"
  using assms by (simp add: generate_code_def extract_code_blocks_def extract_explanation_def)

lemma conduct_research_completed:
  assumes "async_search (research_search_manager a) = Some search"
    and "format_search_results (research_search_manager a) = Some format"
    and "search query 8 = Inr results"
    and "format results = Inr formatted"
    and "research_model_manager a (research_model_type a) (format_prompt a query formatted)
           [(''max_tokens'', PInt 1024), (''temperature'', PFloat (7 / 10))] = Inr text"
  shows "conduct_research a query =
           [(''agent'', PStr (research_agent_name a)),
            (''query'', PStr query),
            (''research_report'', PStr text),
            (''sources'', PList (map PDict results)),
            (''source_count'', PInt (int (length results))),
            (''status'', PStr ''completed'')]"
  using assms by (simp add: conduct_research_def)

lemma conduct_research_web_search_manager:
  "conduct_research (ResearchAgent model_manager) query =
     [(''agent'', PStr ''ResearchAgent''),
      (''query'', PStr query),
      (''error'', PStr (str_of (attribute_error ''WebSearchManager'' ''async_search''))),
      (''status'', PStr ''failed'')]"
  by (simp add: conduct_research_def ResearchAgent_def WebSearchManager_def)

text \<open>
  Claim C10. \<^verbatim>\<open>generate_response\<close> returns a string for every model type, prompt and
  options and never raises: without a pipeline for the model type the string is
  \<open>Model <model_type> not available\<close>, and when the generation raises \<open>e\<close> inside the
  \<^verbatim>\<open>try\<close> block it is \<open>Error: \<close> followed by \<open>str(e)\<close>. An agent built on this manager
  therefore returns a result with status \<open>completed\<close> whose text is such a message:
  the coding agent's \<open>full_response\<close> when there is no \<open>qwen\<close> pipeline, and the research
  agent's \<open>research_report\<close>, with a search manager whose two methods return, when there
  is no \<open>phi3\<close> pipeline or when that pipeline raises.
\<close>

theorem generate_response_never_raises:
  "(\<exists>text. generate_response py_str mm model_type prompt kwargs = Inr text)
   \<and> (pipelines mm model_type = None \<longrightarrow>
        generate_response py_str mm model_type prompt kwargs
          = Inr (''Model '' @ model_type @ '' not available''))
   \<and> (\<forall>pipe e. pipelines mm model_type = Some pipe
                 \<and> generate_body py_str pipe prompt kwargs = Inl e \<longrightarrow>
        generate_response py_str mm model_type prompt kwargs = Inr (''Error: '' @ str_of e))
   \<and> (pipelines mm ''qwen'' = None \<longrightarrow>
        map_of (generate_code (CodingAgent (generate_response py_str mm)) task language requirements)
           ''status'' = Some (PStr ''completed'')
        \<and> map_of (generate_code (CodingAgent (generate_response py_str mm)) task language requirements)
           ''full_response'' = Some (PStr ''Model qwen not available''))
   \<and> (\<forall>search format results formatted.
         pipelines mm ''phi3'' = None
         \<and> search query 8 = Inr results \<and> format results = Inr formatted \<longrightarrow>
        map_of (conduct_research
                  ((ResearchAgent (generate_response py_str mm))
                     \<lparr>research_search_manager :=
                        \<lparr>async_search = Some search, format_search_results = Some format\<rparr>\<rparr>)
                  query)
           ''status'' = Some (PStr ''completed'')
        \<and> map_of (conduct_research
                  ((ResearchAgent (generate_response py_str mm))
                     \<lparr>research_search_manager :=
                        \<lparr>async_search = Some search, format_search_results = Some format\<rparr>\<rparr>)
                  query)
           ''research_report'' = Some (PStr ''Model phi3 not available''))
   \<and> (\<forall>search format results formatted pipe e.
         pipelines mm ''phi3'' = Some pipe \<and> pipe = (\<lambda>p n. Inl e)
         \<and> search query 8 = Inr results \<and> format results = Inr formatted \<longrightarrow>
        map_of (conduct_research
                  ((ResearchAgent (generate_response py_str mm))
                     \<lparr>research_search_manager :=
                        \<lparr>async_search = Some search, format_search_results = Some format\<rparr>\<rparr>)
                  query)
           ''status'' = Some (PStr ''completed'')
        \<and> map_of (conduct_research
                  ((ResearchAgent (generate_response py_str mm))
                     \<lparr>research_search_manager :=
                        \<lparr>async_search = Some search, format_search_results = Some format\<rparr>\<rparr>)
                  query)
           ''research_report'' = Some (PStr (''Error: '' @ str_of e)))"
proof -
  have a: "\<exists>text. generate_response py_str mm model_type prompt kwargs = Inr text"
    by (rule generate_response_returns)
  have b: "generate_response py_str mm model_type prompt kwargs
          = Inr (''Model '' @ model_type @ '' not available'')"
    if "pipelines mm model_type = None"
    using that by (rule generate_response_unavailable)
  have c: "generate_response py_str mm model_type prompt kwargs = Inr (''Error: '' @ str_of e)"
    if "pipelines mm model_type = Some pipe \<and> generate_body py_str pipe prompt kwargs = Inl e"
    for pipe e
    using that by (simp add: generate_response_error)
  have d: "map_of (generate_code (CodingAgent (generate_response py_str mm)) task language requirements)
           ''status'' = Some (PStr ''completed'')
        \<and> map_of (generate_code (CodingAgent (generate_response py_str mm)) task language requirements)
           ''full_response'' = Some (PStr ''Model qwen not available'')"
    if q: "pipelines mm ''qwen'' = None"
  proof -
    let ?a = "CodingAgent (generate_response py_str mm)"
    have "coding_model_manager ?a (coding_model_type ?a)
             (format_coding_prompt ?a task language requirements)
             [(''max_tokens'', PInt 1024), (''temperature'', PFloat (3 / 10))]
           = Inr ''Model qwen not available''"
      using generate_response_unavailable [OF q] by (simp add: CodingAgent_def)
    from generate_code_completed [OF this qwen_message_plain(1)]
    show ?thesis by simp
  qed
  have e: "map_of (conduct_research
                  ((ResearchAgent (generate_response py_str mm))
                     \<lparr>research_search_manager :=
                        \<lparr>async_search = Some search, format_search_results = Some format\<rparr>\<rparr>)
                  query)
           ''status'' = Some (PStr ''completed'')
        \<and> map_of (conduct_research
                  ((ResearchAgent (generate_response py_str mm))
                     \<lparr>research_search_manager :=
                        \<lparr>async_search = Some search, format_search_results = Some format\<rparr>\<rparr>)
                  query)
           ''research_report'' = Some (PStr ''Model phi3 not available'')"
    if h: "pipelines mm ''phi3'' = None
         \<and> search query 8 = Inr results \<and> format results = Inr formatted"
    for search format results formatted
  proof -
    let ?a = "(ResearchAgent (generate_response py_str mm))
                     \<lparr>research_search_manager :=
                        \<lparr>async_search = Some search, format_search_results = Some format\<rparr>\<rparr>"
    from h have p: "pipelines mm ''phi3'' = None" by simp
    have g: "research_model_manager ?a (research_model_type ?a) (format_prompt ?a query formatted)
           [(''max_tokens'', PInt 1024), (''temperature'', PFloat (7 / 10))]
           = Inr ''Model phi3 not available''"
      using generate_response_unavailable [OF p] by (simp add: ResearchAgent_def)
    have "conduct_research ?a query =
           [(''agent'', PStr (research_agent_name ?a)),
            (''query'', PStr query),
            (''research_report'', PStr ''Model phi3 not available''),
            (''sources'', PList (map PDict results)),
            (''source_count'', PInt (int (length results))),
            (''status'', PStr ''completed'')]"
      by (rule conduct_research_completed [OF _ _ _ _ g, of search format results])
         (use h in simp_all)
    then show ?thesis by simp
  qed
  have f: "map_of (conduct_research
                  ((ResearchAgent (generate_response py_str mm))
                     \<lparr>research_search_manager :=
                        \<lparr>async_search = Some search, format_search_results = Some format\<rparr>\<rparr>)
                  query)
           ''status'' = Some (PStr ''completed'')
        \<and> map_of (conduct_research
                  ((ResearchAgent (generate_response py_str mm))
                     \<lparr>research_search_manager :=
                        \<lparr>async_search = Some search, format_search_results = Some format\<rparr>\<rparr>)
                  query)
           ''research_report'' = Some (PStr (''Error: '' @ str_of e))"
    if h: "pipelines mm ''phi3'' = Some pipe \<and> pipe = (\<lambda>p n. Inl e)
         \<and> search query 8 = Inr results \<and> format results = Inr formatted"
    for search format results formatted pipe e
  proof -
    let ?a = "(ResearchAgent (generate_response py_str mm))
                     \<lparr>research_search_manager :=
                        \<lparr>async_search = Some search, format_search_results = Some format\<rparr>\<rparr>"
    from h have p: "pipelines mm ''phi3'' = Some pipe" by simp
    from h have "generate_body py_str pipe (format_prompt ?a query formatted)
        [(''max_tokens'', PInt 1024), (''temperature'', PFloat (7 / 10))] = Inl e"
      by (simp add: generate_body_def)
    note generate_response_error [OF p this]
    then have g: "research_model_manager ?a (research_model_type ?a)
           (format_prompt ?a query formatted)
           [(''max_tokens'', PInt 1024), (''temperature'', PFloat (7 / 10))]
           = Inr (''Error: '' @ str_of e)"
      by (simp add: ResearchAgent_def)
    have "conduct_research ?a query =
           [(''agent'', PStr (research_agent_name ?a)),
            (''query'', PStr query),
            (''research_report'', PStr (''Error: '' @ str_of e)),
            (''sources'', PList (map PDict results)),
            (''source_count'', PInt (int (length results))),
            (''status'', PStr ''completed'')]"
      by (rule conduct_research_completed [OF _ _ _ _ g, of search format results])
         (use h in simp_all)
    then show ?thesis by simp
  qed
  from a b c d e f show ?thesis by blast
qed


theorem generate_response_never_raises_witness:
  "pipelines no_models ''qwen'' = None
   \<and> generate_response braces no_models ''qwen'' ''Hello'' [] = Inr ''Model qwen not available''
   \<and> map_of (generate_code (CodingAgent (generate_response braces no_models))
                ''sort a list'' ''python'' [])
        ''status'' = Some (PStr ''completed'')
   \<and> map_of (generate_code (CodingAgent (generate_response braces no_models))
                ''sort a list'' ''python'' [])
        ''full_response'' = Some (PStr ''Model qwen not available'')
   \<and> pipelines failing_model ''phi3'' = Some failing_pipe
   \<and> generate_body braces failing_pipe ''Hello'' [] = Inl (Exception ''CUDA out of memory'')
   \<and> generate_response braces failing_model ''phi3'' ''Hello'' []
       = Inr ''Error: CUDA out of memory''
   \<and> stub_search ''sorting'' 8 = Inr [] \<and> stub_format [] = Inr ''No search results found.''
   \<and> map_of (conduct_research
               ((ResearchAgent (generate_response braces failing_model))
                  \<lparr>research_search_manager := stub_search_manager\<rparr>)
               ''sorting'')
        ''status'' = Some (PStr ''completed'')
   \<and> map_of (conduct_research
               ((ResearchAgent (generate_response braces failing_model))
                  \<lparr>research_search_manager := stub_search_manager\<rparr>)
               ''sorting'')
        ''research_report'' = Some (PStr ''Error: CUDA out of memory'')"
proof -
  have q: "pipelines no_models ''qwen'' = None"
    by (simp add: no_models_def)
  have p: "pipelines failing_model ''phi3'' = Some failing_pipe"
    by (simp add: failing_model_def)
  have fp: "failing_pipe = (\<lambda>p n. Inl (Exception ''CUDA out of memory''))"
    by (rule ext)+ (simp add: failing_pipe_def)
  have body: "generate_body braces failing_pipe ''Hello'' [] = Inl (Exception ''CUDA out of memory'')"
    by (simp add: generate_body_def failing_pipe_def)
  have s: "stub_search ''sorting'' 8 = Inr []" "stub_format [] = Inr ''No search results found.''"
    by (simp_all add: stub_search_def stub_format_def)
  note t1 = generate_response_never_raises
    [of braces no_models "''qwen''" "''Hello''" "[]" "''sort a list''" "''python''" "[]"]
  from t1 q have r1: "generate_response braces no_models ''qwen'' ''Hello'' []
                        = Inr ''Model qwen not available''"
    by simp
  from t1 q have r2: "map_of (generate_code (CodingAgent (generate_response braces no_models))
                ''sort a list'' ''python'' [])
        ''status'' = Some (PStr ''completed'')
    \<and> map_of (generate_code (CodingAgent (generate_response braces no_models))
                ''sort a list'' ''python'' [])
        ''full_response'' = Some (PStr ''Model qwen not available'')"
    by blast
  note t2 = generate_response_never_raises
    [of braces failing_model "''phi3''" "''Hello''" "[]" _ _ _ "''sorting''"]
  from t2 p body have r3: "generate_response braces failing_model ''phi3'' ''Hello'' []
       = Inr ''Error: CUDA out of memory''"
    by force
  from t2 p fp s have r4: "map_of (conduct_research
               ((ResearchAgent (generate_response braces failing_model))
                  \<lparr>research_search_manager :=
                     \<lparr>async_search = Some stub_search, format_search_results = Some stub_format\<rparr>\<rparr>)
               ''sorting'')
        ''status'' = Some (PStr ''completed'')
    \<and> map_of (conduct_research
               ((ResearchAgent (generate_response braces failing_model))
                  \<lparr>research_search_manager :=
                     \<lparr>async_search = Some stub_search, format_search_results = Some stub_format\<rparr>\<rparr>)
               ''sorting'')
        ''research_report'' = Some (PStr (''Error: '' @ str_of (Exception ''CUDA out of memory'')))"
    by blast
  from q r1 r2 p body r3 s r4 show ?thesis
    by (simp add: stub_search_manager_def)
qed

end
